theory Spec2Isabelle
  imports Main "HOL-Library.Word" "HOL-Library.Monad_Syntax"
begin

unbundle bit_operations_syntax

section \<open>The PowerShell position source of OpenOrienteering Mapper\<close>

text \<open>
  A shallow embedding of \<^verbatim>\<open>src/sensors/powershell_position_source.cpp\<close>: the class
  \<^verbatim>\<open>PowershellPositionSource\<close>, a \<^verbatim>\<open>QGeoPositionInfoSource\<close> that runs a PowerShell
  child process and parses the lines it prints.

  The object is a record of its members; every member function takes the object and
  returns it updated. What the object does to the outside is kept in two logs inside
  the record: the signals it emits and the calls it makes on the child process.
  Qt's value classes are modelled by the data they hold. Two library parsers,
  \<^verbatim>\<open>QDateTime::fromString(_, Qt::ISODate)\<close> and \<^verbatim>\<open>QString::toDouble\<close>, are parameters of
  the model: the source only calls them, and the theorems below that speak of all lines
  hold for any behaviour of theirs (what a theorem needs of them is a hypothesis on
  their result).
\<close>

subsection \<open>Qt value types\<close>

text \<open>
  A \<^verbatim>\<open>double\<close> is its IEEE 754 binary64 bit pattern. The source never computes with
  doubles: it stores them, asks \<^verbatim>\<open>qIsNaN\<close>, and \<^verbatim>\<open>QGeoCoordinate\<close> compares latitude
  and longitude with \<open>\<plusminus>90\<close> and \<open>\<plusminus>180\<close>. A NaN has all exponent bits set and a
  non-zero mantissa, so its magnitude bits exceed those of infinity; and for all other
  values the order of the magnitudes is the order of the magnitude bits.
\<close>

type_synonym double = "64 word"

definition magnitude :: "double \<Rightarrow> 64 word" where
  "magnitude d = d AND 0x7FFFFFFFFFFFFFFF"

definition qIsNaN :: "double \<Rightarrow> bool" where
  "qIsNaN d = (0x7FF0000000000000 < magnitude d)"

definition qQNaN :: double where
  "qQNaN = 0x7FF8000000000000"

text \<open>\<^verbatim>\<open>QLocationUtils::isValidLat\<close>: \<^verbatim>\<open>lat >= -90.0 && lat <= 90.0\<close>; 90.0 is
  \<open>0x4056800000000000\<close>, 180.0 is \<open>0x4066800000000000\<close>.\<close>

definition isValidLat :: "double \<Rightarrow> bool" where
  "isValidLat d = (magnitude d \<le> 0x4056800000000000)"

definition isValidLong :: "double \<Rightarrow> bool" where
  "isValidLong d = (magnitude d \<le> 0x4066800000000000)"

text \<open>A \<^verbatim>\<open>QDateTime\<close> is invalid, or a number of milliseconds since the epoch (UTC).
  The milliseconds are an unbounded integer here; Qt holds them in 64 bits.\<close>

datatype QDateTime = InvalidDateTime | DateTime int

fun isValidDateTime :: "QDateTime \<Rightarrow> bool" where
  "isValidDateTime InvalidDateTime = False"
| "isValidDateTime (DateTime _) = True"

fun addMSecs :: "QDateTime \<Rightarrow> int \<Rightarrow> QDateTime" where
  "addMSecs InvalidDateTime _ = InvalidDateTime"
| "addMSecs (DateTime t) msecs = DateTime (t + msecs)"

text \<open>\<^verbatim>\<open>QGeoCoordinate\<close> holds three doubles, NaN where unset.\<close>

record QGeoCoordinate =
  lat :: double
  lng :: double
  alt :: double

definition QGeoCoordinate0 :: QGeoCoordinate where
  "QGeoCoordinate0 = \<lparr>lat = qQNaN, lng = qQNaN, alt = qQNaN\<rparr>"

text \<open>\<^verbatim>\<open>QGeoCoordinate(latitude, longitude)\<close>: out-of-range arguments set nothing.\<close>

definition QGeoCoordinate2 :: "double \<Rightarrow> double \<Rightarrow> QGeoCoordinate" where
  "QGeoCoordinate2 latitude longitude =
     (if isValidLat latitude \<and> isValidLong longitude
      then QGeoCoordinate0\<lparr>lat := latitude, lng := longitude\<rparr>
      else QGeoCoordinate0)"

definition setAltitude :: "double \<Rightarrow> QGeoCoordinate \<Rightarrow> QGeoCoordinate" where
  "setAltitude altitude c = c\<lparr>alt := altitude\<rparr>"

definition isValidCoordinate :: "QGeoCoordinate \<Rightarrow> bool" where
  "isValidCoordinate c = (isValidLat (lat c) \<and> isValidLong (lng c))"

datatype Attribute =
  Direction | GroundSpeed | VerticalSpeed | MagneticVariation
| HorizontalAccuracy | VerticalAccuracy

record QGeoPositionInfo =
  coordinate :: QGeoCoordinate
  timestamp :: QDateTime
  attributes :: "Attribute \<rightharpoonup> double"

definition QGeoPositionInfo0 :: QGeoPositionInfo where
  "QGeoPositionInfo0 =
     \<lparr>coordinate = QGeoCoordinate0, timestamp = InvalidDateTime, attributes = Map.empty\<rparr>"

definition QGeoPositionInfo2 :: "QGeoCoordinate \<Rightarrow> QDateTime \<Rightarrow> QGeoPositionInfo" where
  "QGeoPositionInfo2 c t = \<lparr>coordinate = c, timestamp = t, attributes = Map.empty\<rparr>"

definition setAttribute :: "Attribute \<Rightarrow> double \<Rightarrow> QGeoPositionInfo \<Rightarrow> QGeoPositionInfo" where
  "setAttribute a v p = p\<lparr>attributes := (attributes p)(a \<mapsto> v)\<rparr>"

definition setTimestamp :: "QDateTime \<Rightarrow> QGeoPositionInfo \<Rightarrow> QGeoPositionInfo" where
  "setTimestamp t p = p\<lparr>timestamp := t\<rparr>"

definition isValid :: "QGeoPositionInfo \<Rightarrow> bool" where
  "isValid p = (isValidDateTime (timestamp p) \<and> isValidCoordinate (coordinate p))"

text \<open>A \<^verbatim>\<open>QTimer\<close>, as far as the source uses it.\<close>

record QTimer =
  isActive :: bool
  interval :: int
  singleShot :: bool

definition QTimer0 :: QTimer where
  "QTimer0 = \<lparr>isActive = False, interval = 0, singleShot = False\<rparr>"

definition timer_start :: "QTimer \<Rightarrow> QTimer" where
  "timer_start t = t\<lparr>isActive := True\<rparr>"

definition timer_start_msec :: "int \<Rightarrow> QTimer \<Rightarrow> QTimer" where
  "timer_start_msec msec t = t\<lparr>interval := msec, isActive := True\<rparr>"

definition timer_stop :: "QTimer \<Rightarrow> QTimer" where
  "timer_stop t = t\<lparr>isActive := False\<rparr>"

definition setInterval :: "int \<Rightarrow> QTimer \<Rightarrow> QTimer" where
  "setInterval msec t = t\<lparr>interval := msec\<rparr>"

definition setSingleShot :: "bool \<Rightarrow> QTimer \<Rightarrow> QTimer" where
  "setSingleShot b t = t\<lparr>singleShot := b\<rparr>"

subsection \<open>The object\<close>

text \<open>\<^verbatim>\<open>QGeoPositionInfoSource::Error\<close> and \<^verbatim>\<open>QProcess::ProcessState\<close>, in Qt's order.\<close>

datatype Error = AccessError | ClosedError | UnknownSourceError | NoError

datatype ProcessState = NotRunning | Starting | Running

text \<open>The signals of \<^verbatim>\<open>QGeoPositionInfoSource\<close> the object emits, and the calls it makes
  on \<^verbatim>\<open>powershell\<close>, its \<^verbatim>\<open>QProcess\<close>.\<close>

datatype signal =
  positionUpdated QGeoPositionInfo
| error_signal Error
| updateTimeout

datatype process_call = ProcessStart | ProcessWrite string | ProcessKill

record adapter =
  powershell_script :: string
  powershell_program :: string
  powershell_arguments :: "string list"
  powershell_state :: ProcessState
  powershell_calls :: "process_call list"
  connected :: bool
  periodic_update_timer :: QTimer
  single_update_timer :: QTimer
  position_error :: Error
  last_position :: QGeoPositionInfo
  updates_ongoing :: bool
  updateInterval :: int
  emitted :: "signal list"

definition emit :: "signal \<Rightarrow> adapter \<Rightarrow> adapter" where
  "emit sg s = s\<lparr>emitted := emitted s @ [sg]\<rparr>"

definition powershell_write :: "string \<Rightarrow> adapter \<Rightarrow> adapter" where
  "powershell_write bytes s = s\<lparr>powershell_calls := powershell_calls s @ [ProcessWrite bytes]\<rparr>"

definition powershell_kill :: "adapter \<Rightarrow> adapter" where
  "powershell_kill s = s\<lparr>powershell_calls := powershell_calls s @ [ProcessKill]\<rparr>"

definition setError :: "Error \<Rightarrow> adapter \<Rightarrow> adapter" where
  "setError e s =
     (let s1 = s\<lparr>position_error := e\<rparr>
      in if e \<noteq> NoError then emit (error_signal e) s1 else s1)"

definition error :: "adapter \<Rightarrow> Error" where
  "error s = position_error s"

definition lastKnownPosition :: "adapter \<Rightarrow> QGeoPositionInfo" where
  "lastKnownPosition s = last_position s"

definition minimumUpdateInterval :: int where
  "minimumUpdateInterval = 1000"

text \<open>
  Modelled from the spec: the member initialisers of the class, whose header
  \<^verbatim>\<open>powershell_position_source.h\<close> is not among the sources. Before the constructor's
  body runs there is no error, no last known position, continuous mode is inactive,
  the process is not running and nothing is connected.
\<close>

definition members0 :: "string \<Rightarrow> adapter" where
  "members0 script =
     \<lparr>powershell_script = script, powershell_program = [], powershell_arguments = [],
      powershell_state = NotRunning, powershell_calls = [], connected = False,
      periodic_update_timer = QTimer0, single_update_timer = QTimer0,
      position_error = NoError, last_position = QGeoPositionInfo0,
      updates_ongoing = False, updateInterval = 0, emitted = []\<rparr>"

text \<open>The constructor \<^verbatim>\<open>PowershellPositionSource(QByteArray&& script, QObject* parent)\<close>.\<close>

definition PowershellPositionSource :: "string \<Rightarrow> adapter" where
  "PowershellPositionSource script =
     (let s = members0 script
      in if powershell_script s = [] then setError UnknownSourceError s
         else s\<lparr>powershell_program := ''powershell.exe'',
                powershell_arguments :=
                  [''-NoLogo'', ''-NoProfile'', ''-NonInteractive'', ''-Command'', ''-''],
                connected := True,
                periodic_update_timer := setSingleShot True (periodic_update_timer s),
                single_update_timer := setSingleShot True (single_update_timer s)\<rparr>)"

text \<open>The slot \<^verbatim>\<open>powershellStateChanged\<close>.\<close>

definition powershellStateChanged :: "ProcessState \<Rightarrow> adapter \<Rightarrow> adapter" where
  "powershellStateChanged new_state s =
     (case new_state of
        Starting \<Rightarrow> s
      | Running \<Rightarrow>
          (let s1 = powershell_write (powershell_script s) s
           in if isActive (single_update_timer s1)
              then powershell_write (''& $position() '' @ [CHR 0x0D, CHR 0x0A]) s1
              else s1)
      | NotRunning \<Rightarrow> s\<lparr>updates_ongoing := False\<rparr>)"

text \<open>
  The child process belongs to the environment. \<^verbatim>\<open>QProcess::start()\<close> does nothing to
  a process that is not \<^verbatim>\<open>NotRunning\<close> or has no program; otherwise the state becomes
  \<^verbatim>\<open>Starting\<close> and then, before \<^verbatim>\<open>start()\<close> returns, the environment decides: the process
  fails to start, is still starting, or is running. Each change of state emits
  \<^verbatim>\<open>stateChanged\<close>, which the constructor connected to the slot above.
\<close>

datatype start_outcome = FailsToStart | StillStarting | NowRunning

definition setProcessState :: "ProcessState \<Rightarrow> adapter \<Rightarrow> adapter" where
  "setProcessState st s =
     (if powershell_state s = st then s
      else let s1 = s\<lparr>powershell_state := st\<rparr>
           in if connected s1 then powershellStateChanged st s1 else s1)"

definition powershell_start :: "start_outcome \<Rightarrow> adapter \<Rightarrow> adapter" where
  "powershell_start outcome s =
     (let s0 = s\<lparr>powershell_calls := powershell_calls s @ [ProcessStart]\<rparr>
      in if powershell_state s0 \<noteq> NotRunning then s0
         else if powershell_program s0 = [] then s0
         else let s1 = setProcessState Starting s0
              in case outcome of
                   FailsToStart \<Rightarrow> setProcessState NotRunning s1
                 | StillStarting \<Rightarrow> s1
                 | NowRunning \<Rightarrow> setProcessState Running s1)"

definition init :: "start_outcome \<Rightarrow> adapter \<Rightarrow> bool \<times> adapter" where
  "init outcome s =
     (if powershell_state s \<noteq> NotRunning then (True, s)
      else let s1 = powershell_start outcome s
           in if powershell_state s1 = NotRunning
              then (False, setError UnknownSourceError (s1\<lparr>updates_ongoing := False\<rparr>))
              else (True, s1\<lparr>periodic_update_timer :=
                                setInterval (updateInterval s1) (periodic_update_timer s1)\<rparr>))"

definition startUpdates :: "start_outcome \<Rightarrow> adapter \<Rightarrow> adapter" where
  "startUpdates outcome s =
     (case init outcome s of
        (ok, s1) \<Rightarrow>
          if \<not> ok then s1
          else s1\<lparr>updates_ongoing := True,
                  periodic_update_timer := timer_start (periodic_update_timer s1)\<rparr>)"

definition stopUpdates :: "adapter \<Rightarrow> adapter" where
  "stopUpdates s =
     (if updates_ongoing s
      then powershell_kill
             (s\<lparr>periodic_update_timer := timer_stop (periodic_update_timer s),
                updates_ongoing := False\<rparr>)
      else s)"

definition requestUpdate :: "start_outcome \<Rightarrow> int \<Rightarrow> adapter \<Rightarrow> adapter" where
  "requestUpdate outcome timeout s =
     (case init outcome s of
        (ok, s1) \<Rightarrow>
          if \<not> ok then s1
          else let s2 = setError NoError s1
               in if timeout = 0
                  then s2\<lparr>single_update_timer :=
                            timer_start_msec 120000 (single_update_timer s2)\<rparr>
                  else if timeout < minimumUpdateInterval then emit updateTimeout s2
                  else s2\<lparr>single_update_timer :=
                            timer_start_msec timeout (single_update_timer s2)\<rparr>)"

definition nativePositionUpdate :: "QGeoPositionInfo \<Rightarrow> adapter \<Rightarrow> adapter" where
  "nativePositionUpdate position s =
     (let s1 = s\<lparr>periodic_update_timer := timer_stop (periodic_update_timer s)\<rparr>;
          s2 = s1\<lparr>last_position := position\<rparr>;
          s3 = (if updates_ongoing s2
                then s2\<lparr>periodic_update_timer := timer_start (periodic_update_timer s2)\<rparr>
                else s2);
          s4 = (if isActive (single_update_timer s3)
                then s3\<lparr>single_update_timer := timer_stop (single_update_timer s3)\<rparr>
                else s3);
          s5 = setError NoError s4
      in emit (positionUpdated (last_position s5)) s5)"

definition periodicUpdateTimeout :: "adapter \<Rightarrow> adapter" where
  "periodicUpdateTimeout s =
     (let s1 = (if isValid (last_position s)
                then let virtual_position =
                           setTimestamp
                             (addMSecs (timestamp (last_position s)) (updateInterval s))
                             (last_position s);
                         s' = s\<lparr>last_position := virtual_position\<rparr>
                     in emit (positionUpdated (last_position s')) s'
                else s)
      in s1\<lparr>periodic_update_timer := timer_start (periodic_update_timer s1)\<rparr>)"

definition singleUpdateTimeout :: "adapter \<Rightarrow> adapter" where
  "singleUpdateTimeout s =
     (if isActive (single_update_timer s) then emit updateTimeout s else s)"

subsection \<open>Reading one line\<close>

text \<open>
  A line is a \<^verbatim>\<open>QByteArray\<close>: its bytes, followed in memory by a NUL that
  \<^verbatim>\<open>constData()\<close> guarantees. Positions are C \<^verbatim>\<open>int\<close>s, \<open>-1\<close> for "not found".
\<close>

primrec find_char :: "char \<Rightarrow> string \<Rightarrow> nat option" where
  "find_char ch [] = None"
| "find_char ch (x # xs) = (if x = ch then Some 0 else map_option Suc (find_char ch xs))"

text \<open>\<^verbatim>\<open>QByteArray::indexOf(char ch, int from)\<close>.\<close>

definition indexOf :: "string \<Rightarrow> char \<Rightarrow> int \<Rightarrow> int" where
  "indexOf ba ch from =
     (let from' = (if from < 0 then max (from + int (length ba)) 0 else from)
      in if from' < int (length ba)
         then (case find_char ch (drop (nat from') ba) of
                 Some k \<Rightarrow> from' + int k
               | None \<Rightarrow> - 1)
         else - 1)"

text \<open>
  \<^verbatim>\<open>QString::fromLatin1(line.constData() + pos, size)\<close>. A negative size means "up to the
  first NUL" (\<^verbatim>\<open>strlen\<close>); the bytes of the line end with one. The result is \<open>None\<close>
  when the call would read a byte that is neither of the line nor its terminator.
\<close>

definition fromLatin1 :: "string \<Rightarrow> int \<Rightarrow> int \<Rightarrow> string option" where
  "fromLatin1 line pos sz =
     (if pos < 0 \<or> int (length line) < pos then None
      else if sz < 0 then Some (takeWhile (\<lambda>c. c \<noteq> CHR 0x00) (drop (nat pos) line))
      else if pos + sz \<le> int (length line) then Some (take (nat sz) (drop (nat pos) line))
      else None)"

text \<open>
  \<^verbatim>\<open>QByteArray::fromRawData(line.constData() + pos, size)\<close>, as the comparison with
  \<^verbatim>\<open>"Ready"\<close> sees it: \<^verbatim>\<open>qstrcmp\<close> walks from the data pointer to data plus size, so
  a size of zero or less gives it no byte to read, like the empty array.
\<close>

definition fromRawData :: "string \<Rightarrow> int \<Rightarrow> int \<Rightarrow> string option" where
  "fromRawData line pos sz =
     (if sz \<le> 0 then Some []
      else if 0 \<le> pos \<and> pos + sz \<le> int (length line)
      then Some (take (nat sz) (drop (nat pos) line))
      else None)"

text \<open>The two lambdas of \<^verbatim>\<open>processPosition\<close> capture \<^verbatim>\<open>pos\<close> and \<^verbatim>\<open>next_pos\<close> by
  reference: they take the pair and return it updated, with what they read.\<close>

type_synonym cursor = "int \<times> int"

definition read_cstring :: "string \<Rightarrow> cursor \<Rightarrow> (string \<times> cursor) option" where
  "read_cstring line cur =
     (let pos = snd cur + 1;
          next_pos = indexOf line CHR '';'' pos
      in map_option (\<lambda>bytes. (bytes, (pos, next_pos)))
           (fromRawData line pos (next_pos - pos)))"

definition read_string :: "string \<Rightarrow> cursor \<Rightarrow> (string \<times> cursor) option" where
  "read_string line cur =
     (let pos = snd cur + 1;
          next_pos = indexOf line CHR '';'' pos
      in map_option (\<lambda>str. (str, (pos, next_pos)))
           (fromLatin1 line pos (next_pos - pos)))"

text \<open>The library parsers: \<^verbatim>\<open>QDateTime::fromString(_, Qt::ISODate)\<close>, and
  \<^verbatim>\<open>QString::toDouble(bool* ok)\<close> with the value it returns and the flag it sets.\<close>

record qt_parsers =
  fromString_ISODate :: "string \<Rightarrow> QDateTime"
  toDouble :: "string \<Rightarrow> double \<times> bool"

text \<open>
  Lines 265 to 272 of \<^verbatim>\<open>processPosition\<close>: the local \<^verbatim>\<open>position\<close>, built from the parsed
  values. Altitude and vertical accuracy are attached together, when the vertical
  accuracy is a number.
\<close>

definition position_of ::
  "QDateTime \<Rightarrow> double \<Rightarrow> double \<Rightarrow> double \<Rightarrow> double \<Rightarrow> double \<Rightarrow> QGeoPositionInfo" where
  "position_of date_time latitude longitude altitude h_accuracy v_accuracy =
     (let geo_coord = QGeoCoordinate2 latitude longitude;
          geo_coord = (if \<not> qIsNaN v_accuracy then setAltitude altitude geo_coord
                       else geo_coord);
          position = QGeoPositionInfo2 geo_coord date_time;
          position = setAttribute HorizontalAccuracy h_accuracy position;
          position = (if \<not> qIsNaN v_accuracy
                      then setAttribute VerticalAccuracy v_accuracy position
                      else position)
      in position)"

text \<open>
  \<^verbatim>\<open>processPosition\<close>. \<open>None\<close> is a read outside the line's memory. The source asserts
  (\<^verbatim>\<open>Q_ASSERT\<close>, compiled out of release builds) that the line starts with
  \<^verbatim>\<open>"Position;"\<close>; its only caller checks that. The \<^verbatim>\<open>||\<close> chain is written as the
  sequence of tests it is. The last statement passes \<^verbatim>\<open>last_position\<close>, not the local
  \<^verbatim>\<open>position\<close>, to \<^verbatim>\<open>nativePositionUpdate\<close>.
\<close>

definition processPosition :: "qt_parsers \<Rightarrow> string \<Rightarrow> adapter \<Rightarrow> adapter option" where
  "processPosition qt line s = do {
     let cur = (0, indexOf line CHR '';'' (0 + 1));
     (status, cur) \<leftarrow> read_cstring line cur;
     if status \<noteq> ''Ready'' then Some (setError ClosedError s)
     else do {
       (str, cur) \<leftarrow> read_string line cur;
       let date_time = fromString_ISODate qt str;
       (str, cur) \<leftarrow> read_string line cur;
       let (latitude, ok0) = toDouble qt str;
       (str, cur) \<leftarrow> read_string line cur;
       let (longitude, ok1) = toDouble qt str;
       (str, cur) \<leftarrow> read_string line cur;
       let (altitude, ok2) = toDouble qt str;
       (str, cur) \<leftarrow> read_string line cur;
       let (h_accuracy, ok3) = toDouble qt str;
       (str, cur) \<leftarrow> read_string line cur;
       let (v_accuracy, ok4) = toDouble qt str;
       let numbers_ok = [ok0, ok1, ok2, ok3, ok4];
       if fst cur = 0 then Some (setError UnknownSourceError s)
       else if \<not> isValidDateTime date_time then Some (setError UnknownSourceError s)
       else if False \<in> set numbers_ok then Some (setError UnknownSourceError s)
       else if qIsNaN h_accuracy then Some s
       else do {
         let position = position_of date_time latitude longitude altitude h_accuracy v_accuracy;
         Some (nativePositionUpdate (last_position s) s)
       }
     }
   }"

subsection \<open>The reads as total functions\<close>

text \<open>
  What the seven reads of \<^verbatim>\<open>processPosition\<close> do to the pair \<^verbatim>\<open>(pos, next_pos)\<close> and what
  they return, written without the bounds checks: the lemmas below show that the
  checked reads never fail and agree with these.
\<close>

definition next_cursor :: "string \<Rightarrow> cursor \<Rightarrow> cursor" where
  "next_cursor line cur = (snd cur + 1, indexOf line CHR '';'' (snd cur + 1))"

definition cursor_ok :: "string \<Rightarrow> cursor \<Rightarrow> bool" where
  "cursor_ok line cur = (- 1 \<le> snd cur \<and> snd cur < int (length line))"

definition field_of :: "string \<Rightarrow> cursor \<Rightarrow> string" where
  "field_of line cur =
     (if snd cur < fst cur then takeWhile (\<lambda>c. c \<noteq> CHR 0x00) (drop (nat (fst cur)) line)
      else take (nat (snd cur - fst cur)) (drop (nat (fst cur)) line))"

definition raw_field_of :: "string \<Rightarrow> cursor \<Rightarrow> string" where
  "raw_field_of line cur = take (nat (snd cur - fst cur)) (drop (nat (fst cur)) line)"

definition semicolons :: "string \<Rightarrow> int \<Rightarrow> nat" where
  "semicolons line p = length (filter (\<lambda>c. c = CHR '';'') (drop (nat p) line))"

text \<open>The line the feed prints for a position: the tag, the status \<^verbatim>\<open>Ready\<close> and six
  fields, separated by semicolons.\<close>

definition position_line ::
  "string \<Rightarrow> string \<Rightarrow> string \<Rightarrow> string \<Rightarrow> string \<Rightarrow> string \<Rightarrow> string" where
  "position_line ts la lo al ha va =
     ''Position;Ready;'' @ ts @ '';'' @ la @ '';'' @ lo @ '';'' @ al @ '';'' @ ha @ '';'' @ va"

subsection \<open>Inputs for evaluation\<close>

text \<open>
  An excerpt of the two library parsers, enough to run the model on the lines below:
  the values of \<^verbatim>\<open>QString::toDouble\<close> at six literals (as bit patterns, with
  \<^verbatim>\<open>ok = true\<close>) and of \<^verbatim>\<open>QDateTime::fromString\<close> at one timestamp (1577836800000 ms
  after the epoch). Every other string is reported as unparseable, which is what Qt
  does for the other strings used below (\<^verbatim>\<open>abc\<close>, \<^verbatim>\<open>Position\<close>, \<^verbatim>\<open>Ready\<close>).
\<close>

definition example_toDouble :: "string \<Rightarrow> double \<times> bool" where
  "example_toDouble str =
     (if str = ''52.5'' then (0x404A400000000000, True)
      else if str = ''13.4'' then (0x402ACCCCCCCCCCCD, True)
      else if str = ''34.0'' then (0x4041000000000000, True)
      else if str = ''5.0'' then (0x4014000000000000, True)
      else if str = ''3.0'' then (0x4008000000000000, True)
      else if str = ''NaN'' then (qQNaN, True)
      else (0, False))"

definition example_fromString :: "string \<Rightarrow> QDateTime" where
  "example_fromString str =
     (if str = ''2020-01-01T00:00:00Z'' then DateTime 1577836800000 else InvalidDateTime)"

definition example_qt :: qt_parsers where
  "example_qt = \<lparr>fromString_ISODate = example_fromString, toDouble = example_toDouble\<rparr>"

definition example_line :: string where
  "example_line = ''Position;Ready;2020-01-01T00:00:00Z;52.5;13.4;34.0;5.0;3.0''"

definition example_position :: QGeoPositionInfo where
  "example_position =
     position_of (DateTime 1577836800000) 0x404A400000000000 0x402ACCCCCCCCCCCD
       0x4041000000000000 0x4014000000000000 0x4008000000000000"

text \<open>A freshly constructed object, and one in continuous mode that holds a valid
  last known position. The position is put there by a record update: no line read by
  \<^verbatim>\<open>processPosition\<close> changes \<^verbatim>\<open>last_position\<close> (see C1 below).\<close>

definition example_adapter :: adapter where
  "example_adapter = PowershellPositionSource ''$watcher.start()''"

definition example_running :: adapter where
  "example_running =
     (startUpdates NowRunning example_adapter)
       \<lparr>last_position := example_position, updateInterval := 1000\<rparr>"

section \<open>Lemmas on the reads\<close>

subsection \<open>Searching for the delimiter\<close>

lemma find_char_None: "find_char c xs = None \<longleftrightarrow> c \<notin> set xs"
  by (induction xs) auto

lemma find_char_append: "c \<notin> set f \<Longrightarrow> find_char c (f @ c # rest) = Some (length f)"
  by (induction f) auto

lemma find_char_absent: "c \<notin> set f \<Longrightarrow> find_char c f = None"
  by (simp add: find_char_None)

lemma find_char_Some:
  "find_char c xs = Some k \<Longrightarrow> k < length xs \<and> c \<notin> set (take k xs) \<and> xs ! k = c"
proof (induction xs arbitrary: k)
  case Nil
  then show ?case by simp
next
  case (Cons x xs)
  show ?case
  proof (cases "x = c")
    case True
    with Cons.prems show ?thesis by simp
  next
    case False
    with Cons.prems obtain j where j: "find_char c xs = Some j" "k = Suc j"
      by auto
    with Cons.IH [of j] False show ?thesis by simp
  qed
qed

lemma find_char_count:
  assumes "find_char c xs = Some k"
  shows "length (filter (\<lambda>x. x = c) xs) = Suc (length (filter (\<lambda>x. x = c) (drop (Suc k) xs)))"
proof -
  from find_char_Some [OF assms] have k: "k < length xs" "c \<notin> set (take k xs)" "xs ! k = c"
    by simp_all
  have "xs = take k xs @ c # drop (Suc k) xs"
    using k(1) k(3) id_take_nth_drop [of k xs] by simp
  then have "filter (\<lambda>x. x = c) xs
      = filter (\<lambda>x. x = c) (take k xs) @ c # filter (\<lambda>x. x = c) (drop (Suc k) xs)"
    by (metis (mono_tags, lifting) filter.simps(2) filter_append)
  moreover have "filter (\<lambda>x. x = c) (take k xs) = []"
    using k(2) by (auto simp add: filter_empty_conv)
  ultimately show ?thesis by simp
qed

lemma indexOf_found:
  "c \<notin> set f \<Longrightarrow>
   indexOf (pre @ f @ c # rest) c (int (length pre)) = int (length pre + length f)"
  by (simp add: indexOf_def Let_def find_char_append)

lemma indexOf_missing:
  "c \<notin> set f \<Longrightarrow> indexOf (pre @ f) c (int (length pre)) = - 1"
  by (simp add: indexOf_def Let_def find_char_absent)

text \<open>A search from a position inside the line finds nothing, and then no semicolon is
  left, or it finds the next semicolon, and one semicolon fewer is left behind it.\<close>

lemma indexOf_cases:
  assumes "0 \<le> p"
  shows "(indexOf line CHR '';'' p = - 1 \<and> semicolons line p = 0)
       \<or> (p \<le> indexOf line CHR '';'' p \<and> indexOf line CHR '';'' p < int (length line)
          \<and> semicolons line p = Suc (semicolons line (indexOf line CHR '';'' p + 1)))"
proof (cases "p < int (length line)")
  case False
  with assms show ?thesis by (simp add: indexOf_def semicolons_def)
next
  case True
  show ?thesis
  proof (cases "find_char CHR '';'' (drop (nat p) line)")
    case None
    then have "CHR '';'' \<notin> set (drop (nat p) line)" by (simp add: find_char_None)
    then have "semicolons line p = 0" by (auto simp add: semicolons_def filter_empty_conv)
    with None True assms show ?thesis by (simp add: indexOf_def)
  next
    case (Some k)
    from find_char_Some [OF Some] have k: "k < length line - nat p" by simp
    from find_char_count [OF Some]
    have "semicolons line p = Suc (semicolons line (p + int k + 1))"
      using assms by (simp add: semicolons_def nat_add_distrib add.commute)
    moreover have "indexOf line CHR '';'' p = p + int k"
      using Some True assms by (simp add: indexOf_def)
    ultimately show ?thesis using k assms by auto
  qed
qed

lemma indexOf_range:
  "0 \<le> p \<Longrightarrow> - 1 \<le> indexOf line CHR '';'' p \<and> indexOf line CHR '';'' p < int (length line)"
  using indexOf_cases [of p line] by auto

lemma advance:
  assumes "0 \<le> p" "semicolons line p < Suc k"
  shows "indexOf line CHR '';'' p = - 1
       \<or> (0 \<le> indexOf line CHR '';'' p \<and> semicolons line (indexOf line CHR '';'' p + 1) < k)"
  using indexOf_cases [OF assms(1), of line] assms by auto

subsection \<open>Every read stays inside the line\<close>

lemma read_string_total:
  assumes "cursor_ok line cur"
  shows "read_string line cur = Some (field_of line (next_cursor line cur), next_cursor line cur)"
    and "cursor_ok line (next_cursor line cur)"
proof -
  let ?p = "snd cur + 1"
  have p: "0 \<le> ?p" "?p \<le> int (length line)" using assms by (simp_all add: cursor_ok_def)
  from indexOf_cases [OF p(1), of line]
  show "read_string line cur = Some (field_of line (next_cursor line cur), next_cursor line cur)"
    using p by (auto simp add: read_string_def fromLatin1_def field_of_def next_cursor_def Let_def)
  from indexOf_range [OF p(1), of line]
  show "cursor_ok line (next_cursor line cur)"
    by (simp add: cursor_ok_def next_cursor_def)
qed

lemma read_cstring_total:
  assumes "cursor_ok line cur"
  shows "read_cstring line cur
         = Some (raw_field_of line (next_cursor line cur), next_cursor line cur)"
proof -
  let ?p = "snd cur + 1"
  have p: "0 \<le> ?p" "?p \<le> int (length line)" using assms by (simp_all add: cursor_ok_def)
  from indexOf_cases [OF p(1), of line]
  show ?thesis
    using p
    by (auto simp add: read_cstring_def fromRawData_def raw_field_of_def next_cursor_def Let_def)
qed

text \<open>\<^verbatim>\<open>processPosition\<close> in terms of the seven pairs \<^verbatim>\<open>(pos, next_pos)\<close> it goes through,
  for any line at all.\<close>

lemma processPosition_cursors:
  assumes c1_def: "c1 = next_cursor line (0, indexOf line CHR '';'' 1)"
    and c2_def: "c2 = next_cursor line c1"
    and c3_def: "c3 = next_cursor line c2"
    and c4_def: "c4 = next_cursor line c3"
    and c5_def: "c5 = next_cursor line c4"
    and c6_def: "c6 = next_cursor line c5"
    and c7_def: "c7 = next_cursor line c6"
  shows "processPosition qt line s =
     Some (if raw_field_of line c1 \<noteq> ''Ready'' then setError ClosedError s
           else if fst c7 = 0 then setError UnknownSourceError s
           else if \<not> isValidDateTime (fromString_ISODate qt (field_of line c2))
           then setError UnknownSourceError s
           else if False \<in> set [snd (toDouble qt (field_of line c3)),
                     snd (toDouble qt (field_of line c4)), snd (toDouble qt (field_of line c5)),
                     snd (toDouble qt (field_of line c6)), snd (toDouble qt (field_of line c7))]
           then setError UnknownSourceError s
           else if qIsNaN (fst (toDouble qt (field_of line c6))) then s
           else nativePositionUpdate (last_position s) s)"
proof -
  define c0 where "c0 = (0 :: int, indexOf line CHR '';'' 1)"
  have k0: "cursor_ok line c0"
    using indexOf_range [of 1 line] by (simp add: cursor_ok_def c0_def)
  have r0: "read_cstring line c0 = Some (raw_field_of line c1, c1)"
    using read_cstring_total [OF k0] by (simp add: c1_def c0_def)
  have k1: "cursor_ok line c1"
    using read_string_total(2) [OF k0] by (simp add: c1_def c0_def)
  have r1: "read_string line c1 = Some (field_of line c2, c2)"
    using read_string_total(1) [OF k1] by (simp add: c2_def)
  have k2: "cursor_ok line c2" using read_string_total(2) [OF k1] by (simp add: c2_def)
  have r2: "read_string line c2 = Some (field_of line c3, c3)"
    using read_string_total(1) [OF k2] by (simp add: c3_def)
  have k3: "cursor_ok line c3" using read_string_total(2) [OF k2] by (simp add: c3_def)
  have r3: "read_string line c3 = Some (field_of line c4, c4)"
    using read_string_total(1) [OF k3] by (simp add: c4_def)
  have k4: "cursor_ok line c4" using read_string_total(2) [OF k3] by (simp add: c4_def)
  have r4: "read_string line c4 = Some (field_of line c5, c5)"
    using read_string_total(1) [OF k4] by (simp add: c5_def)
  have k5: "cursor_ok line c5" using read_string_total(2) [OF k4] by (simp add: c5_def)
  have r5: "read_string line c5 = Some (field_of line c6, c6)"
    using read_string_total(1) [OF k5] by (simp add: c6_def)
  have k6: "cursor_ok line c6" using read_string_total(2) [OF k5] by (simp add: c6_def)
  have r6: "read_string line c6 = Some (field_of line c7, c7)"
    using read_string_total(1) [OF k6] by (simp add: c7_def)
  have start: "(0, indexOf line CHR '';'' 1) = c0" by (simp add: c0_def)
  show ?thesis
    unfolding processPosition_def
    by (simp add: start r0 r1 r2 r3 r4 r5 r6 Let_def split: prod.splits)
qed

lemma processPosition_reads_in_bounds: "\<exists>s'. processPosition qt line s = Some s'"
  using processPosition_cursors [OF refl refl refl refl refl refl refl, of qt line s] by simp

subsection \<open>A line with all its fields\<close>

lemma read_string_at:
  assumes "line = pre @ f @ CHR '';'' # rest" "CHR '';'' \<notin> set f" "n = int (length pre) - 1"
  shows "read_string line (p, n) = Some (f, (n + 1, n + 1 + int (length f)))"
  using assms by (simp add: read_string_def Let_def indexOf_found fromLatin1_def)

lemma read_cstring_at:
  assumes "line = pre @ f @ CHR '';'' # rest" "CHR '';'' \<notin> set f" "n = int (length pre) - 1"
  shows "read_cstring line (p, n) = Some (f, (n + 1, n + 1 + int (length f)))"
  using assms by (auto simp add: read_cstring_def Let_def indexOf_found fromRawData_def)

lemma read_string_end:
  assumes "line = pre @ f" "CHR '';'' \<notin> set f" "CHR 0x00 \<notin> set f" "n = int (length pre) - 1"
  shows "read_string line (p, n) = Some (f, (n + 1, - 1))"
  using assms
  by (auto simp add: read_string_def Let_def indexOf_missing fromLatin1_def)

lemma processPosition_position_line:
  assumes sc: "CHR '';'' \<notin> set ts" "CHR '';'' \<notin> set la" "CHR '';'' \<notin> set lo"
      "CHR '';'' \<notin> set al" "CHR '';'' \<notin> set ha" "CHR '';'' \<notin> set va"
    and nul: "CHR 0x00 \<notin> set va"
  shows "processPosition qt (position_line ts la lo al ha va) s =
     Some (if \<not> isValidDateTime (fromString_ISODate qt ts) then setError UnknownSourceError s
           else if False \<in> set [snd (toDouble qt la), snd (toDouble qt lo), snd (toDouble qt al),
                     snd (toDouble qt ha), snd (toDouble qt va)]
           then setError UnknownSourceError s
           else if qIsNaN (fst (toDouble qt ha)) then s
           else nativePositionUpdate (last_position s) s)"
proof -
  define line where "line = position_line ts la lo al ha va"
  define n1 where "n1 = 14 + int (length ts)"
  define n2 where "n2 = n1 + 1 + int (length la)"
  define n3 where "n3 = n2 + 1 + int (length lo)"
  define n4 where "n4 = n3 + 1 + int (length al)"
  define n5 where "n5 = n4 + 1 + int (length ha)"
  have i0: "indexOf line CHR '';'' 1 = 8"
    using indexOf_found [of "CHR '';''" "''osition''" "''P''"
        "''Ready;'' @ ts @ '';'' @ la @ '';'' @ lo @ '';'' @ al @ '';'' @ ha @ '';'' @ va"]
    by (simp add: line_def position_line_def)
  have r0: "read_cstring line (0, 8) = Some (''Ready'', (9, 14))"
    using read_cstring_at [of line "''Position;''" "''Ready''" _ 8 0]
    by (simp add: line_def position_line_def)
  have r1: "read_string line (9, 14) = Some (ts, (15, n1 + 1))"
    using read_string_at [of line "''Position;Ready;''" ts _ 14 9] sc
    by (simp add: line_def position_line_def n1_def)
  have r2: "read_string line (15, n1 + 1) = Some (la, (n1 + 2, n2 + 1))"
    using read_string_at [of line "''Position;Ready;'' @ ts @ '';''" la _ "n1 + 1" 15] sc
    by (simp add: line_def position_line_def n1_def n2_def)
  have r3: "read_string line (n1 + 2, n2 + 1) = Some (lo, (n2 + 2, n3 + 1))"
    using read_string_at [of line "''Position;Ready;'' @ ts @ '';'' @ la @ '';''" lo _
        "n2 + 1" "n1 + 2"] sc
    by (simp add: line_def position_line_def n1_def n2_def n3_def)
  have r4: "read_string line (n2 + 2, n3 + 1) = Some (al, (n3 + 2, n4 + 1))"
    using read_string_at [of line "''Position;Ready;'' @ ts @ '';'' @ la @ '';'' @ lo @ '';''" al _
        "n3 + 1" "n2 + 2"] sc
    by (simp add: line_def position_line_def n1_def n2_def n3_def n4_def)
  have r5: "read_string line (n3 + 2, n4 + 1) = Some (ha, (n4 + 2, n5 + 1))"
    using read_string_at [of line
        "''Position;Ready;'' @ ts @ '';'' @ la @ '';'' @ lo @ '';'' @ al @ '';''" ha _
        "n4 + 1" "n3 + 2"] sc
    by (simp add: line_def position_line_def n1_def n2_def n3_def n4_def n5_def)
  have r6: "read_string line (n4 + 2, n5 + 1) = Some (va, (n5 + 2, - 1))"
    using read_string_end [of line
        "''Position;Ready;'' @ ts @ '';'' @ la @ '';'' @ lo @ '';'' @ al @ '';'' @ ha @ '';''" va
        "n5 + 1" "n4 + 2"] sc nul
    by (simp add: line_def position_line_def n1_def n2_def n3_def n4_def n5_def)
  have pos: "n5 + 2 \<noteq> 0"
    by (simp add: n1_def n2_def n3_def n4_def n5_def)
  show ?thesis
    unfolding line_def [symmetric] processPosition_def
    by (simp add: i0 r0 r1 r2 r3 r4 r5 r6 pos Let_def split: prod.splits)
qed

lemma processPosition_accepts:
  assumes "CHR '';'' \<notin> set ts" "CHR '';'' \<notin> set la" "CHR '';'' \<notin> set lo"
      "CHR '';'' \<notin> set al" "CHR '';'' \<notin> set ha" "CHR '';'' \<notin> set va" "CHR 0x00 \<notin> set va"
    and "isValidDateTime (fromString_ISODate qt ts)"
    and "snd (toDouble qt la)" "snd (toDouble qt lo)" "snd (toDouble qt al)"
      "snd (toDouble qt ha)" "snd (toDouble qt va)"
    and "\<not> qIsNaN (fst (toDouble qt ha))"
  shows "processPosition qt (position_line ts la lo al ha va) s
         = Some (nativePositionUpdate (last_position s) s)"
  using assms by (simp add: processPosition_position_line)

subsection \<open>A line that is not ready, a line that is too short\<close>

lemma status_not_ready:
  assumes "takeWhile (\<lambda>c. c \<noteq> CHR '';'') rest \<noteq> ''Ready''"
  shows "processPosition qt (''Position;'' @ rest) s = Some (setError ClosedError s)"
proof -
  define line where "line = ''Position;'' @ rest"
  define n where "n = indexOf line CHR '';'' 9"
  have i1: "indexOf line CHR '';'' 1 = 8"
    using indexOf_found [of "CHR '';''" "''osition''" "''P''" rest]
    by (simp add: line_def)
  have c1: "(9, n) = next_cursor line (0, indexOf line CHR '';'' 1)"
    by (simp add: next_cursor_def i1 n_def)
  have "raw_field_of line (9, n) \<noteq> ''Ready''"
  proof (cases "CHR '';'' \<in> set rest")
    case True
    then obtain f r where fr: "rest = f @ CHR '';'' # r" "CHR '';'' \<notin> set f"
      by (auto dest: split_list_first)
    then have tw: "takeWhile (\<lambda>c. c \<noteq> CHR '';'') rest = f"
      by (auto simp add: takeWhile_tail)
    have "n = 9 + int (length f)"
      using indexOf_found [of "CHR '';''" f "''Position;''" r] fr
      by (simp add: n_def line_def)
    then have "raw_field_of line (9, n) = f"
      by (simp add: raw_field_of_def line_def fr)
    with tw assms show ?thesis by simp
  next
    case False
    then have "n = - 1"
      using indexOf_missing [of "CHR '';''" rest "''Position;''"]
      by (simp add: n_def line_def)
    then show ?thesis by (simp add: raw_field_of_def)
  qed
  then show ?thesis
    unfolding line_def [symmetric]
    using processPosition_cursors [OF c1 refl refl refl refl refl refl, of qt s]
    by simp
qed

text \<open>After a search that found nothing, \<^verbatim>\<open>next_pos\<close> is \<open>-1\<close>, so the next read starts
  again at position 0 and returns the tag.\<close>

lemma wrap_around:
  assumes "line = ''Position;'' @ r"
  shows "next_cursor line (p, - 1) = (0, 8)" and "field_of line (0, 8) = ''Position''"
proof -
  have "indexOf line CHR '';'' 0 = 8"
    using indexOf_found [of "CHR '';''" "''Position''" "[]" r] assms by simp
  then show "next_cursor line (p, - 1) = (0, 8)" by (simp add: next_cursor_def)
  show "field_of line (0, 8) = ''Position''" using assms by (simp add: field_of_def)
qed

lemma short_line_rejected:
  assumes few: "length (filter (\<lambda>c. c = CHR '';'') rest) < 5"
    and np: "\<not> snd (toDouble qt ''Position'')"
  shows "processPosition qt (''Position;Ready;'' @ rest) s = Some (setError UnknownSourceError s)"
proof -
  define line where "line = ''Position;Ready;'' @ rest"
  define n2 where "n2 = indexOf line CHR '';'' 15"
  define n3 where "n3 = indexOf line CHR '';'' (n2 + 1)"
  define n4 where "n4 = indexOf line CHR '';'' (n3 + 1)"
  define n5 where "n5 = indexOf line CHR '';'' (n4 + 1)"
  define n6 where "n6 = indexOf line CHR '';'' (n5 + 1)"
  define n7 where "n7 = indexOf line CHR '';'' (n6 + 1)"
  have l9: "line = ''Position;'' @ (''Ready;'' @ rest)" by (simp add: line_def)
  have i1: "indexOf line CHR '';'' 1 = 8"
    using indexOf_found [of "CHR '';''" "''osition''" "''P''" "''Ready;'' @ rest"]
    by (simp add: line_def)
  have i9: "indexOf line CHR '';'' 9 = 14"
    using indexOf_found [of "CHR '';''" "''Ready''" "''Position;''" rest]
    by (simp add: line_def)
  have c1: "(9, 14) = next_cursor line (0, indexOf line CHR '';'' 1)"
    by (simp add: next_cursor_def i1 i9)
  have c2: "(15, n2) = next_cursor line (9, 14)" by (simp add: next_cursor_def n2_def)
  have c3: "(n2 + 1, n3) = next_cursor line (15, n2)" by (simp add: next_cursor_def n3_def)
  have c4: "(n3 + 1, n4) = next_cursor line (n2 + 1, n3)" by (simp add: next_cursor_def n4_def)
  have c5: "(n4 + 1, n5) = next_cursor line (n3 + 1, n4)" by (simp add: next_cursor_def n5_def)
  have c6: "(n5 + 1, n6) = next_cursor line (n4 + 1, n5)" by (simp add: next_cursor_def n6_def)
  have c7: "(n6 + 1, n7) = next_cursor line (n5 + 1, n6)" by (simp add: next_cursor_def n7_def)
  have status: "raw_field_of line (9, 14) = ''Ready''"
    by (simp add: raw_field_of_def line_def)
  have s15: "semicolons line 15 < 5"
    using few by (simp add: semicolons_def line_def)
  have wrap: "\<And>n. n = - 1 \<Longrightarrow> indexOf line CHR '';'' (n + 1) = 8"
    using wrap_around(1) [OF l9] by (simp add: next_cursor_def)
  have fld: "\<And>n. n = - 1 \<Longrightarrow> field_of line (n + 1, 8) = ''Position''"
    using wrap_around(2) [OF l9] by simp
  consider (a) "n2 = - 1" | (b) "n3 = - 1" | (c) "n4 = - 1" | (d) "n5 = - 1" | (e) "n6 = - 1"
  proof -
    from advance [of 15 line 4] s15
    have "n2 = - 1 \<or> (0 \<le> n2 \<and> semicolons line (n2 + 1) < 4)"
      by (simp add: n2_def)
    moreover have "n3 = - 1 \<or> (0 \<le> n3 \<and> semicolons line (n3 + 1) < 3)"
      if "0 \<le> n2" "semicolons line (n2 + 1) < 4"
      using advance [of "n2 + 1" line 3] that by (simp add: n3_def)
    moreover have "n4 = - 1 \<or> (0 \<le> n4 \<and> semicolons line (n4 + 1) < 2)"
      if "0 \<le> n3" "semicolons line (n3 + 1) < 3"
      using advance [of "n3 + 1" line 2] that by (simp add: n4_def)
    moreover have "n5 = - 1 \<or> (0 \<le> n5 \<and> semicolons line (n5 + 1) < 1)"
      if "0 \<le> n4" "semicolons line (n4 + 1) < 2"
      using advance [of "n4 + 1" line 1] that by (simp add: n5_def)
    moreover have "n6 = - 1"
      if "0 \<le> n5" "semicolons line (n5 + 1) < 1"
      using advance [of "n5 + 1" line 0] that by (simp add: n6_def)
    ultimately show thesis using a b c d e by blast
  qed
  then have "n6 + 1 = 0
      \<or> \<not> snd (toDouble qt (field_of line (n2 + 1, n3)))
      \<or> \<not> snd (toDouble qt (field_of line (n3 + 1, n4)))
      \<or> \<not> snd (toDouble qt (field_of line (n4 + 1, n5)))
      \<or> \<not> snd (toDouble qt (field_of line (n5 + 1, n6)))"
  proof cases
    case a
    with wrap [of n2] have "n3 = 8" by (simp add: n3_def)
    with fld [OF a] np show ?thesis by simp
  next
    case b
    with wrap [of n3] have "n4 = 8" by (simp add: n4_def)
    with fld [OF b] np show ?thesis by simp
  next
    case c
    with wrap [of n4] have "n5 = 8" by (simp add: n5_def)
    with fld [OF c] np show ?thesis by simp
  next
    case d
    with wrap [of n5] have "n6 = 8" by (simp add: n6_def)
    with fld [OF d] np show ?thesis by simp
  next
    case e
    then show ?thesis by simp
  qed
  then show ?thesis
    unfolding line_def [symmetric]
    using processPosition_cursors [OF c1 c2 c3 c4 c5 c6 c7, of qt s] status
    by auto
qed

subsection \<open>The inputs for evaluation\<close>

lemma example_adapter_simps:
  "last_position example_adapter = QGeoPositionInfo0"
  "emitted example_adapter = []"
  "position_error example_adapter = NoError"
  "powershell_state example_adapter = NotRunning"
  "powershell_calls example_adapter = []"
  "updates_ongoing example_adapter = False"
  by (simp_all add: example_adapter_def PowershellPositionSource_def members0_def)

lemma example_running_simps:
  "updates_ongoing example_running"
  "powershell_state example_running \<noteq> NotRunning"
  "last_position example_running = example_position"
  "updateInterval example_running = 1000"
  by (simp_all add: example_running_def example_adapter_def startUpdates_def init_def
      PowershellPositionSource_def members0_def powershell_start_def setProcessState_def
      powershellStateChanged_def powershell_write_def Let_def)

lemma example_qt_simps:
  "fromString_ISODate example_qt = example_fromString"
  "toDouble example_qt = example_toDouble"
  by (simp_all add: example_qt_def)

lemma example_line_eq:
  "example_line = position_line ''2020-01-01T00:00:00Z'' ''52.5'' ''13.4'' ''34.0'' ''5.0'' ''3.0''"
  by (simp add: example_line_def position_line_def)

lemma example_position_simps:
  "timestamp example_position = DateTime 1577836800000"
  "lat (coordinate example_position) = 0x404A400000000000"
  "lng (coordinate example_position) = 0x402ACCCCCCCCCCCD"
  "alt (coordinate example_position) = 0x4041000000000000"
  "attributes example_position HorizontalAccuracy = Some 0x4014000000000000"
  "attributes example_position VerticalAccuracy = Some 0x4008000000000000"
  by (simp_all add: example_position_def position_of_def QGeoCoordinate2_def QGeoPositionInfo2_def
      setAttribute_def setAltitude_def QGeoCoordinate0_def isValidLat_def isValidLong_def
      magnitude_def qIsNaN_def Let_def)

lemma example_position_valid: "isValid example_position"
  by (simp add: isValid_def isValidCoordinate_def example_position_simps isValidLat_def
      isValidLong_def magnitude_def)

lemma nativePositionUpdate_effect:
  "last_position (nativePositionUpdate p s) = p"
  "position_error (nativePositionUpdate p s) = NoError"
  "emitted (nativePositionUpdate p s) = emitted s @ [positionUpdated p]"
  by (simp_all add: nativePositionUpdate_def setError_def emit_def Let_def)

section \<open>The claims\<close>

subsection \<open>C1: an accepted line\<close>

text \<open>For any line with all its fields, a valid timestamp, five parseable numbers and a
  horizontal accuracy that is a number, \<^verbatim>\<open>processPosition\<close> hands the old
  \<^verbatim>\<open>last_position\<close> to \<^verbatim>\<open>nativePositionUpdate\<close>: the stored position stays what it was,
  and the event carries it.\<close>

lemma processPosition_keeps_last_position:
  assumes "CHR '';'' \<notin> set ts" "CHR '';'' \<notin> set la" "CHR '';'' \<notin> set lo"
      "CHR '';'' \<notin> set al" "CHR '';'' \<notin> set ha" "CHR '';'' \<notin> set va" "CHR 0x00 \<notin> set va"
    and "isValidDateTime (fromString_ISODate qt ts)"
    and "snd (toDouble qt la)" "snd (toDouble qt lo)" "snd (toDouble qt al)"
      "snd (toDouble qt ha)" "snd (toDouble qt va)"
    and "\<not> qIsNaN (fst (toDouble qt ha))"
  shows "\<exists>s'. processPosition qt (position_line ts la lo al ha va) s = Some s'
       \<and> last_position s' = last_position s
       \<and> emitted s' = emitted s @ [positionUpdated (last_position s)]
       \<and> position_error s' = NoError"
  using processPosition_accepts [OF assms, of s]
  by (simp add: nativePositionUpdate_effect)

text \<open>
  C1 says that a well-formed line
  \<^verbatim>\<open>Position;Ready;<timestamp>;<lat>;<lon>;<alt>;<h_acc>;<v_acc>\<close> stores a record carrying
  exactly the parsed values as the last known position, clears the error and emits
  \<^verbatim>\<open>positionUpdated\<close> with that record. The code does not: evaluated on the line
  \<^verbatim>\<open>Position;Ready;2020-01-01T00:00:00Z;52.5;13.4;34.0;5.0;3.0\<close> and a freshly constructed
  object, it clears the error, but the last known position stays the default-constructed
  (invalid) one, whose latitude is unset, and the event carries that record, not the
  record of the parsed values, whose latitude is 52.5.
\<close>

theorem processPosition_example_line:
  "map_option last_position (processPosition example_qt example_line example_adapter)
     = Some (last_position example_adapter)
   \<and> map_option emitted (processPosition example_qt example_line example_adapter)
     = Some [positionUpdated QGeoPositionInfo0]
   \<and> map_option position_error (processPosition example_qt example_line example_adapter)
     = Some NoError
   \<and> last_position example_adapter = QGeoPositionInfo0
   \<and> lat (coordinate QGeoPositionInfo0) = qQNaN
   \<and> lat (coordinate example_position) = 0x404A400000000000
   \<and> QGeoPositionInfo0 \<noteq> example_position"
proof -
  have "processPosition example_qt example_line example_adapter
        = Some (nativePositionUpdate (last_position example_adapter) example_adapter)"
    unfolding example_line_eq
    by (rule processPosition_accepts)
       (simp_all add: example_qt_simps example_fromString_def example_toDouble_def
          qIsNaN_def magnitude_def)
  moreover have l0: "lat (coordinate QGeoPositionInfo0) = qQNaN"
    by (simp add: QGeoPositionInfo0_def QGeoCoordinate0_def)
  moreover have "QGeoPositionInfo0 \<noteq> example_position"
  proof
    assume "QGeoPositionInfo0 = example_position"
    with example_position_simps(2) l0 have "qQNaN = (0x404A400000000000 :: 64 word)" by simp
    then show False by (simp add: qQNaN_def)
  qed
  ultimately show ?thesis
    by (simp add: nativePositionUpdate_effect example_adapter_simps example_position_simps)
qed

subsection \<open>C2: a field that does not parse\<close>

text \<open>
  C2, as amended. For every line \<^verbatim>\<open>Position;Ready;<ts>;<lat>;<lon>;<alt>;<h_acc>;<v_acc>\<close>
  (six fields without a semicolon, the last one without a NUL byte) whose timestamp
  does not parse to a valid \<^verbatim>\<open>QDateTime\<close>, or one of whose five numeric fields is not
  parsed by \<^verbatim>\<open>toDouble\<close>, the record is rejected: the error becomes
  \<^verbatim>\<open>UnknownSourceError\<close>, which is the error of an object constructed with an empty script
  (there is no separate kind for malformed data), the error signal is emitted and no
  \<^verbatim>\<open>positionUpdated\<close>, and the last known position is unchanged.
\<close>

theorem processPosition_malformed:
  assumes "CHR '';'' \<notin> set ts" "CHR '';'' \<notin> set la" "CHR '';'' \<notin> set lo"
      "CHR '';'' \<notin> set al" "CHR '';'' \<notin> set ha" "CHR '';'' \<notin> set va" "CHR 0x00 \<notin> set va"
    and "\<not> isValidDateTime (fromString_ISODate qt ts)
       \<or> \<not> snd (toDouble qt la) \<or> \<not> snd (toDouble qt lo) \<or> \<not> snd (toDouble qt al)
       \<or> \<not> snd (toDouble qt ha) \<or> \<not> snd (toDouble qt va)"
  shows "\<exists>s'. processPosition qt (position_line ts la lo al ha va) s = Some s'
       \<and> error s' = UnknownSourceError
       \<and> error s' = error (PowershellPositionSource [])
       \<and> emitted s' = emitted s @ [error_signal UnknownSourceError]
       \<and> last_position s' = last_position s"
proof -
  have "processPosition qt (position_line ts la lo al ha va) s
        = Some (setError UnknownSourceError s)"
    using assms by (auto simp add: processPosition_position_line)
  then show ?thesis
    by (simp add: setError_def emit_def error_def PowershellPositionSource_def members0_def)
qed

text \<open>The theorem at a line whose latitude is \<^verbatim>\<open>abc\<close>, on an object in continuous mode
  that holds a position.\<close>

theorem processPosition_malformed_witness:
  "map_option error (processPosition example_qt
       ''Position;Ready;2020-01-01T00:00:00Z;abc;13.4;34.0;5.0;3.0'' example_running)
     = Some UnknownSourceError
   \<and> map_option emitted (processPosition example_qt
       ''Position;Ready;2020-01-01T00:00:00Z;abc;13.4;34.0;5.0;3.0'' example_running)
     = Some (emitted example_running @ [error_signal UnknownSourceError])
   \<and> map_option last_position (processPosition example_qt
       ''Position;Ready;2020-01-01T00:00:00Z;abc;13.4;34.0;5.0;3.0'' example_running)
     = Some (last_position example_running)"
proof -
  have "\<exists>s'. processPosition example_qt
          (position_line ''2020-01-01T00:00:00Z'' ''abc'' ''13.4'' ''34.0'' ''5.0'' ''3.0'')
          example_running = Some s'
       \<and> error s' = UnknownSourceError
       \<and> error s' = error (PowershellPositionSource [])
       \<and> emitted s' = emitted example_running @ [error_signal UnknownSourceError]
       \<and> last_position s' = last_position example_running"
    by (rule processPosition_malformed)
       (simp_all add: example_qt_simps example_fromString_def example_toDouble_def)
  then show ?thesis by (auto simp add: position_line_def)
qed

text \<open>Against C2 as stated: the error a malformed line sets is not distinct from the
  error of an unavailable source. It is the same value.\<close>

theorem malformed_is_source_unavailable_counterexample:
  "map_option error (processPosition example_qt
       ''Position;Ready;2020-01-01T00:00:00Z;abc;13.4;34.0;5.0;3.0'' example_adapter)
     = Some (error (PowershellPositionSource []))"
proof -
  have "processPosition example_qt
          (position_line ''2020-01-01T00:00:00Z'' ''abc'' ''13.4'' ''34.0'' ''5.0'' ''3.0'')
          example_adapter = Some (setError UnknownSourceError example_adapter)"
    by (simp add: processPosition_position_line example_qt_simps example_fromString_def
        example_toDouble_def)
  then show ?thesis
    by (simp add: position_line_def setError_def emit_def error_def PowershellPositionSource_def
        members0_def)
qed

subsection \<open>C3: setting the error\<close>

text \<open>
  C3, as amended. Every call of \<^verbatim>\<open>setError\<close> with a condition other than \<^verbatim>\<open>NoError\<close>
  emits the error signal exactly once, whether or not the stored error changes; a call
  with \<^verbatim>\<open>NoError\<close> emits nothing. In both cases \<^verbatim>\<open>error()\<close> then returns the condition
  set, and nothing else of the object changes.
\<close>

theorem setError_emits_per_call:
  "error (setError e s) = e
   \<and> emitted (setError e s) = emitted s @ (if e = NoError then [] else [error_signal e])
   \<and> setError e s = s\<lparr>position_error := e, emitted := emitted (setError e s)\<rparr>"
  by (simp add: setError_def error_def emit_def)

text \<open>Against C3 as stated: once the stored error is \<^verbatim>\<open>ClosedError\<close>, setting
  \<^verbatim>\<open>ClosedError\<close> again is no transition of the stored value, and the signal is emitted
  again.\<close>

theorem setError_twice_counterexample:
  "position_error (setError ClosedError example_adapter) = ClosedError
   \<and> emitted (setError ClosedError (setError ClosedError example_adapter))
       = emitted (setError ClosedError example_adapter) @ [error_signal ClosedError]"
  by (simp add: setError_def emit_def)

subsection \<open>C4: a request with a timeout below the minimum\<close>

text \<open>
  C4, as amended. Let \<open>0 < t < minimumUpdateInterval\<close>. \<^verbatim>\<open>requestUpdate(t)\<close> runs
  \<^verbatim>\<open>init()\<close> first. If the process is already started (its state is not
  \<^verbatim>\<open>NotRunning\<close>), the call clears the error, signals \<^verbatim>\<open>updateTimeout\<close> and returns
  without touching the process: no start, no write, and the single-shot timer is as it
  was. If the process is not running, the call starts it, and the single-shot timer is
  as it was; when the process has started, \<^verbatim>\<open>updateTimeout\<close> is signalled and the error
  cleared, and when it has not, the error becomes \<^verbatim>\<open>UnknownSourceError\<close>, the error
  signal is emitted and no timeout.
\<close>

theorem requestUpdate_short_timeout:
  assumes "0 < t" "t < minimumUpdateInterval"
  shows "(powershell_state s \<noteq> NotRunning \<longrightarrow>
            requestUpdate outcome t s = emit updateTimeout (setError NoError s)
          \<and> emitted (requestUpdate outcome t s) = emitted s @ [updateTimeout]
          \<and> powershell_calls (requestUpdate outcome t s) = powershell_calls s
          \<and> powershell_state (requestUpdate outcome t s) = powershell_state s
          \<and> single_update_timer (requestUpdate outcome t s) = single_update_timer s
          \<and> position_error (requestUpdate outcome t s) = NoError)
       \<and> (powershell_state s = NotRunning \<longrightarrow>
            take (Suc (length (powershell_calls s))) (powershell_calls (requestUpdate outcome t s))
              = powershell_calls s @ [ProcessStart]
          \<and> single_update_timer (requestUpdate outcome t s) = single_update_timer s
          \<and> (powershell_state (requestUpdate outcome t s) \<noteq> NotRunning \<longrightarrow>
                emitted (requestUpdate outcome t s) = emitted s @ [updateTimeout]
              \<and> position_error (requestUpdate outcome t s) = NoError)
          \<and> (powershell_state (requestUpdate outcome t s) = NotRunning \<longrightarrow>
                emitted (requestUpdate outcome t s) = emitted s @ [error_signal UnknownSourceError]
              \<and> position_error (requestUpdate outcome t s) = UnknownSourceError))"
  using assms
  by (cases outcome)
     (auto simp add: requestUpdate_def init_def powershell_start_def setProcessState_def
        powershellStateChanged_def powershell_write_def setError_def emit_def setInterval_def
        Let_def minimumUpdateInterval_def)

text \<open>The theorem at \<open>t = 500\<close>: on an object whose process runs, and on a fresh object
  whose process starts, or fails to.\<close>

theorem requestUpdate_short_timeout_witness:
  "emitted (requestUpdate StillStarting 500 example_running)
     = emitted example_running @ [updateTimeout]
   \<and> powershell_calls (requestUpdate StillStarting 500 example_running)
     = powershell_calls example_running
   \<and> single_update_timer (requestUpdate StillStarting 500 example_running)
     = single_update_timer example_running
   \<and> take (Suc (length (powershell_calls example_adapter)))
        (powershell_calls (requestUpdate NowRunning 500 example_adapter))
     = powershell_calls example_adapter @ [ProcessStart]
   \<and> emitted (requestUpdate NowRunning 500 example_adapter)
     = emitted example_adapter @ [updateTimeout]
   \<and> emitted (requestUpdate FailsToStart 500 example_adapter)
     = emitted example_adapter @ [error_signal UnknownSourceError]"
proof -
  have t: "0 < (500 :: int)" "500 < minimumUpdateInterval"
    by (simp_all add: minimumUpdateInterval_def)
  have r: "powershell_state example_running \<noteq> NotRunning"
    by (rule example_running_simps)
  have n: "powershell_state example_adapter = NotRunning"
    by (simp add: example_adapter_simps)
  have r1: "powershell_state (requestUpdate NowRunning 500 example_adapter) \<noteq> NotRunning"
    by (simp add: example_adapter_def PowershellPositionSource_def members0_def requestUpdate_def
      init_def powershell_start_def setProcessState_def powershellStateChanged_def
      powershell_write_def setError_def emit_def Let_def minimumUpdateInterval_def)
  have r2: "powershell_state (requestUpdate FailsToStart 500 example_adapter) = NotRunning"
    by (simp add: example_adapter_def PowershellPositionSource_def members0_def requestUpdate_def
      init_def powershell_start_def setProcessState_def powershellStateChanged_def
      powershell_write_def setError_def emit_def Let_def)
  from requestUpdate_short_timeout [OF t, of example_running StillStarting]
       requestUpdate_short_timeout [OF t, of example_adapter NowRunning]
       requestUpdate_short_timeout [OF t, of example_adapter FailsToStart]
       r n r1 r2
  show ?thesis by blast
qed

text \<open>Against C4 as stated: on a fresh object, \<^verbatim>\<open>requestUpdate(500)\<close> starts the process,
  which receives the script once it runs; and when the process fails to start, no
  timeout is signalled.\<close>

theorem requestUpdate_short_timeout_counterexample:
  "0 < (500 :: int) \<and> 500 < minimumUpdateInterval
   \<and> powershell_state example_adapter = NotRunning
   \<and> powershell_calls example_adapter = []
   \<and> powershell_calls (requestUpdate NowRunning 500 example_adapter)
       = [ProcessStart, ProcessWrite ''$watcher.start()'']
   \<and> powershell_state (requestUpdate NowRunning 500 example_adapter) = Running
   \<and> emitted (requestUpdate FailsToStart 500 example_adapter) = [error_signal UnknownSourceError]"
  by (simp add: example_adapter_def PowershellPositionSource_def members0_def requestUpdate_def
      init_def powershell_start_def setProcessState_def powershellStateChanged_def
      powershell_write_def setError_def emit_def setInterval_def setSingleShot_def QTimer0_def
      Let_def minimumUpdateInterval_def)

subsection \<open>C5: a status other than Ready\<close>

text \<open>
  C5. For every line that starts with \<^verbatim>\<open>Position;\<close> and whose status token (the text
  after the tag, up to the next semicolon or the end of the line) is not \<^verbatim>\<open>Ready\<close>,
  \<^verbatim>\<open>processPosition\<close> sets the error to \<^verbatim>\<open>ClosedError\<close> and returns: the result is the
  same whatever the parsers of the position fields would do, the only signal emitted is
  the error signal, and the last known position is unchanged.
\<close>

theorem processPosition_not_ready:
  assumes "takeWhile (\<lambda>c. c \<noteq> CHR '';'') rest \<noteq> ''Ready''"
  shows "\<exists>s'. (\<forall>qt. processPosition qt (''Position;'' @ rest) s = Some s')
       \<and> position_error s' = ClosedError
       \<and> emitted s' = emitted s @ [error_signal ClosedError]
       \<and> last_position s' = last_position s"
proof (intro exI conjI allI)
  fix qt
  show "processPosition qt (''Position;'' @ rest) s = Some (setError ClosedError s)"
    by (rule status_not_ready [OF assms])
qed (simp_all add: setError_def emit_def)

theorem processPosition_not_ready_witness:
  "takeWhile (\<lambda>c. c \<noteq> CHR '';'') ''Closed;2020-01-01T00:00:00Z;52.5;13.4;34.0;5.0;3.0''
     \<noteq> ''Ready''
   \<and> (\<exists>s'. processPosition example_qt
              ''Position;Closed;2020-01-01T00:00:00Z;52.5;13.4;34.0;5.0;3.0'' example_running
            = Some s'
        \<and> position_error s' = ClosedError
        \<and> emitted s' = emitted example_running @ [error_signal ClosedError]
        \<and> last_position s' = last_position example_running)"
proof -
  have h: "takeWhile (\<lambda>c. c \<noteq> CHR '';'') ''Closed;2020-01-01T00:00:00Z;52.5;13.4;34.0;5.0;3.0''
             \<noteq> ''Ready''"
    by simp
  from processPosition_not_ready [OF h, of example_running] h show ?thesis
    by auto
qed

subsection \<open>C6: an unknown horizontal accuracy\<close>

text \<open>
  C6. For every line \<^verbatim>\<open>Position;Ready;<ts>;<lat>;<lon>;<alt>;<h_acc>;<v_acc>\<close> (six fields
  without a semicolon, the last one without a NUL byte) with a valid timestamp and five
  parseable numbers, whose horizontal accuracy parses to a NaN, \<^verbatim>\<open>processPosition\<close>
  returns the object as it was: no signal is emitted, and the last known position and the
  error are unchanged.
\<close>

theorem processPosition_unknown_accuracy:
  assumes "CHR '';'' \<notin> set ts" "CHR '';'' \<notin> set la" "CHR '';'' \<notin> set lo"
      "CHR '';'' \<notin> set al" "CHR '';'' \<notin> set ha" "CHR '';'' \<notin> set va" "CHR 0x00 \<notin> set va"
    and "isValidDateTime (fromString_ISODate qt ts)"
    and "snd (toDouble qt la)" "snd (toDouble qt lo)" "snd (toDouble qt al)"
      "snd (toDouble qt ha)" "snd (toDouble qt va)"
    and "qIsNaN (fst (toDouble qt ha))"
  shows "processPosition qt (position_line ts la lo al ha va) s = Some s"
  using assms by (simp add: processPosition_position_line)

theorem processPosition_unknown_accuracy_witness:
  "processPosition example_qt
     ''Position;Ready;2020-01-01T00:00:00Z;52.5;13.4;34.0;NaN;3.0'' example_running
   = Some example_running"
proof -
  have "processPosition example_qt
          (position_line ''2020-01-01T00:00:00Z'' ''52.5'' ''13.4'' ''34.0'' ''NaN'' ''3.0'')
          example_running = Some example_running"
    by (rule processPosition_unknown_accuracy)
       (simp_all add: example_qt_simps example_fromString_def example_toDouble_def
          qIsNaN_def magnitude_def qQNaN_def)
  then show ?thesis by (simp add: position_line_def)
qed

subsection \<open>C7: the periodic timer\<close>

text \<open>
  C7. When \<^verbatim>\<open>periodicUpdateTimeout\<close> runs on an object whose last known position is valid,
  the new last known position is the old one with its timestamp advanced by
  \<^verbatim>\<open>updateInterval()\<close> milliseconds and every other field as it was, \<^verbatim>\<open>positionUpdated\<close>
  is emitted with this record, and the periodic timer is active again.
\<close>

theorem periodicUpdateTimeout_synthetic:
  assumes "isValid (last_position s)"
  shows "\<exists>t. timestamp (last_position s) = DateTime t
     \<and> last_position (periodicUpdateTimeout s)
         = (last_position s)\<lparr>timestamp := DateTime (t + updateInterval s)\<rparr>
     \<and> emitted (periodicUpdateTimeout s)
         = emitted s @ [positionUpdated (last_position (periodicUpdateTimeout s))]
     \<and> isActive (periodic_update_timer (periodicUpdateTimeout s))"
proof -
  from assms obtain t where t: "timestamp (last_position s) = DateTime t"
    by (cases "timestamp (last_position s)") (simp_all add: isValid_def)
  with assms show ?thesis
    by (simp add: periodicUpdateTimeout_def Let_def emit_def setTimestamp_def timer_start_def)
qed

theorem periodicUpdateTimeout_synthetic_witness:
  "isValid (last_position example_running)
   \<and> timestamp (last_position example_running) = DateTime 1577836800000
   \<and> updateInterval example_running = 1000
   \<and> last_position (periodicUpdateTimeout example_running)
       = example_position\<lparr>timestamp := DateTime 1577836801000\<rparr>
   \<and> emitted (periodicUpdateTimeout example_running)
       = emitted example_running
         @ [positionUpdated (example_position\<lparr>timestamp := DateTime 1577836801000\<rparr>)]
   \<and> isActive (periodic_update_timer (periodicUpdateTimeout example_running))"
proof -
  have lp: "last_position example_running = example_position"
    by (rule example_running_simps)
  have ui: "updateInterval example_running = 1000"
    by (rule example_running_simps)
  have ts: "timestamp example_position = DateTime 1577836800000"
    by (rule example_position_simps)
  have v: "isValid (last_position example_running)"
    using example_position_valid lp by simp
  from periodicUpdateTimeout_synthetic [OF v] lp ui ts v show ?thesis
    by auto
qed

subsection \<open>C8: an empty script\<close>

text \<open>
  C8. Constructed with an empty script, the object has the error
  \<^verbatim>\<open>UnknownSourceError\<close> (the source is unavailable) and has emitted the error signal; no
  call was made on the process, which is not running; and the constructor returned
  before configuring anything: no program, no arguments, no connection, and both timers
  as default-constructed.
\<close>

theorem empty_script_constructor:
  "PowershellPositionSource [] = setError UnknownSourceError (members0 [])
   \<and> error (PowershellPositionSource []) = UnknownSourceError
   \<and> emitted (PowershellPositionSource []) = [error_signal UnknownSourceError]
   \<and> powershell_calls (PowershellPositionSource []) = []
   \<and> powershell_state (PowershellPositionSource []) = NotRunning
   \<and> powershell_program (PowershellPositionSource []) = []
   \<and> powershell_arguments (PowershellPositionSource []) = []
   \<and> connected (PowershellPositionSource []) = False
   \<and> periodic_update_timer (PowershellPositionSource []) = QTimer0
   \<and> single_update_timer (PowershellPositionSource []) = QTimer0"
  by (simp add: PowershellPositionSource_def members0_def setError_def emit_def error_def)

subsection \<open>C9: stopping\<close>

text \<open>
  C9. In continuous mode, \<^verbatim>\<open>stopUpdates\<close> stops the periodic timer, leaves continuous mode
  and kills the process, and changes nothing else. Out of continuous mode it changes
  nothing at all. So \<^verbatim>\<open>stopUpdates\<close> twice is \<^verbatim>\<open>stopUpdates\<close> once.
\<close>

theorem stopUpdates_idempotent:
  "(updates_ongoing s \<longrightarrow>
      stopUpdates s = s\<lparr>periodic_update_timer := timer_stop (periodic_update_timer s),
                        updates_ongoing := False,
                        powershell_calls := powershell_calls s @ [ProcessKill]\<rparr>
      \<and> \<not> isActive (periodic_update_timer (stopUpdates s))
      \<and> \<not> updates_ongoing (stopUpdates s))
   \<and> (\<not> updates_ongoing s \<longrightarrow> stopUpdates s = s)
   \<and> stopUpdates (stopUpdates s) = stopUpdates s"
  by (simp add: stopUpdates_def powershell_kill_def timer_stop_def)

theorem stopUpdates_idempotent_witness:
  "updates_ongoing example_running
   \<and> stopUpdates example_running
       = example_running\<lparr>periodic_update_timer := timer_stop (periodic_update_timer example_running),
                          updates_ongoing := False,
                          powershell_calls := powershell_calls example_running @ [ProcessKill]\<rparr>
   \<and> \<not> isActive (periodic_update_timer (stopUpdates example_running))
   \<and> \<not> updates_ongoing (stopUpdates example_running)
   \<and> stopUpdates (stopUpdates example_running) = stopUpdates example_running"
  using stopUpdates_idempotent [of example_running] example_running_simps(1) by blast

subsection \<open>C10: a line with too few fields\<close>

text \<open>
  C10. For every line that starts with \<^verbatim>\<open>Position;Ready;\<close> and has fewer than seven
  semicolons in all (fewer than five after the status), so that a delimiter of the seven
  fields is missing: every read of \<^verbatim>\<open>processPosition\<close> stays inside the line (the result
  is not \<open>None\<close>), and the record is rejected with \<^verbatim>\<open>UnknownSourceError\<close>, no
  \<^verbatim>\<open>positionUpdated\<close> is emitted and the last known position is unchanged. The one fact
  used of the library is that \<^verbatim>\<open>toDouble\<close> does not parse the tag \<^verbatim>\<open>Position\<close>, which a
  read returns once a search for the delimiter has failed.
\<close>

theorem processPosition_short_line:
  assumes "length (filter (\<lambda>c. c = CHR '';'') rest) < 5"
    and "\<not> snd (toDouble qt ''Position'')"
  shows "\<exists>s'. processPosition qt (''Position;Ready;'' @ rest) s = Some s'
       \<and> error s' = UnknownSourceError
       \<and> emitted s' = emitted s @ [error_signal UnknownSourceError]
       \<and> last_position s' = last_position s"
  using short_line_rejected [OF assms, of s]
  by (simp add: setError_def emit_def error_def)

theorem processPosition_short_line_witness:
  "map_option error (processPosition example_qt
       ''Position;Ready;2020-01-01T00:00:00Z;52.5;13.4'' example_running)
     = Some UnknownSourceError
   \<and> map_option emitted (processPosition example_qt
       ''Position;Ready;2020-01-01T00:00:00Z;52.5;13.4'' example_running)
     = Some (emitted example_running @ [error_signal UnknownSourceError])
   \<and> map_option last_position (processPosition example_qt
       ''Position;Ready;2020-01-01T00:00:00Z;52.5;13.4'' example_running)
     = Some (last_position example_running)"
proof -
  have a: "length (filter (\<lambda>c. c = CHR '';'') ''2020-01-01T00:00:00Z;52.5;13.4'') < 5"
    by simp
  have b: "\<not> snd (toDouble example_qt ''Position'')"
    by (simp add: example_qt_simps example_toDouble_def)
  from processPosition_short_line [OF a b, of example_running] show ?thesis
    by auto
qed

end
